theory Spec2Isabelle
  imports Complex_Main "HOL-Library.AList"
begin

section \<open>Python values\<close>

text \<open>
  The Python values that the modelled code stores and passes on. Floats are only
  stored, compared with a default and forwarded, never computed with, so a float is
  carried as the real number it denotes.
\<close>

datatype pyval = PyNone | PyBool bool | PyInt int | PyFloat real | PyStr string

datatype py_error = IndexError | KeyError | TypeError | AttributeError | RuntimeError
  | ArgumentError | ValueError | OverflowError

section \<open>setBfree engine: the controller table\<close>

text \<open>
  \<^verbatim>\<open>zynthian_engine_setbfree.map_list\<close>: five screens, each a triple of a controller
  list, a number and the screen name. A controller is a tuple of its name, its MIDI CC
  number, its default and its maximum or option string. Lines commented out in the
  source are not part of the table.
\<close>

type_synonym ctrl_entry = "string \<times> int \<times> pyval \<times> pyval"

definition map_list :: "(ctrl_entry list \<times> int \<times> string) list" where
  "map_list = [
    ([ (''volume'', 1, PyInt 96, PyInt 127),
       (''percussion on/off'', 80, PyStr ''off'', PyStr ''off|on''),
       (''rotary speed'', 91, PyStr ''off'', PyStr ''off|chr|trm|chr''),
       (''vibrato on/off'', 92, PyStr ''off'', PyStr ''off|on'')
     ], 0, ''main''),
    ([ (''16'', 70, PyStr ''8'', PyStr ''0|1|2|3|4|5|6|7|8''),
       (''5 1/3'', 71, PyStr ''8'', PyStr ''0|1|2|3|4|5|6|7|8''),
       (''8'', 72, PyStr ''8'', PyStr ''0|1|2|3|4|5|6|7|8''),
       (''4'', 73, PyStr ''8'', PyStr ''0|1|2|3|4|5|6|7|8'')
     ], 0, ''drawbars low''),
    ([ (''2 2/3'', 74, PyStr ''8'', PyStr ''0|1|2|3|4|5|6|7|8''),
       (''2'', 75, PyStr ''8'', PyStr ''0|1|2|3|4|5|6|7|8''),
       (''1 3/5'', 76, PyStr ''8'', PyStr ''0|1|2|3|4|5|6|7|8''),
       (''1 1/3'', 77, PyStr ''8'', PyStr ''0|1|2|3|4|5|6|7|8'')
     ], 0, ''drawbars hi''),
    ([ (''drawbar 1'', 78, PyStr ''8'', PyStr ''0|1|2|3|4|5|6|7|8''),
       (''vibrato selector'', 83, PyStr ''c3'', PyStr ''v1|v2|v3|c1|c2|c3''),
       (''percussion decay'', 81, PyStr ''slow'', PyStr ''slow|fast''),
       (''percussion harmonic'', 82, PyStr ''3rd'', PyStr ''2nd|3rd'')
     ], 0, ''percussion & vibrato''),
    ([ (''overdrive on/off'', 23, PyStr ''off'', PyStr ''off|on''),
       (''overdrive character'', 93, PyInt 64, PyInt 127),
       (''overdrive inputgain'', 21, PyInt 64, PyInt 127),
       (''overdrive outputgain'', 22, PyInt 64, PyInt 127)
     ], 0, ''overdrive'')
  ]"

text \<open>\<^verbatim>\<open>default_ctrl_config=map_list[0][0]\<close>\<close>

definition default_ctrl_config :: "ctrl_entry list" where
  "default_ctrl_config = fst (map_list ! 0)"

text \<open>All controller entries of the table, screen by screen, and the CC number of one.\<close>

definition all_ctrls :: "ctrl_entry list" where
  "all_ctrls = concat (map fst map_list)"

definition ctrl_cc :: "ctrl_entry \<Rightarrow> int" where
  "ctrl_cc e = fst (snd e)"

definition cc_in_range :: "ctrl_entry \<Rightarrow> bool" where
  "cc_in_range e = (0 \<le> ctrl_cc e \<and> ctrl_cc e \<le> 127)"

section \<open>Control screen: page navigation\<close>

text \<open>
  The two fields of \<^verbatim>\<open>zynthian_gui_control\<close> that \<^verbatim>\<open>previous_page\<close> and
  \<^verbatim>\<open>next_page\<close> read: the current index and the list of screens.
\<close>

record 'a zynthian_gui_control =
  index :: int
  list_data :: "'a list"

text \<open>
  Both methods compute an index \<^verbatim>\<open>i\<close> and hand it to \<^verbatim>\<open>self.select(i)\<close>; the
  functions return that \<^verbatim>\<open>i\<close>.
  \<^verbatim>\<open>
  def previous_page(self, wrap=False):
      i = self.index - 1
      if i < 0:
          i = 0
      self.select(i)

  def next_page(self, wrap=False):
      i = self.index + 1
      if i >= len(self.list_data):
          if wrap:
              i = 0
          else:
              i = len(self.list_data) - 1
      self.select(i)
  \<close>
\<close>

definition previous_page :: "'a zynthian_gui_control \<Rightarrow> bool \<Rightarrow> int" where
  "previous_page g wrap =
     (let i = index g - 1;
          i = (if i < 0 then 0 else i)
      in i)"

definition next_page :: "'a zynthian_gui_control \<Rightarrow> bool \<Rightarrow> int" where
  "next_page g wrap =
     (let i = index g + 1;
          i = (if i \<ge> int (length (list_data g))
               then (if wrap then 0 else int (length (list_data g)) - 1)
               else i)
      in i)"

section \<open>setBfree engine: the program list parser\<close>

text \<open>
  \<^verbatim>\<open>load_pgm_list\<close> reads the lines of a program file and matches each against
  \<^verbatim>\<open>^([\d]+)[\s]*\{[\s]*name\=\"([^\"]+)\"\<close>. The file is opened as text, so a line is
  a Python \<^verbatim>\<open>str\<close>: a list of Unicode code points, and the file is the list of its
  lines as \<^verbatim>\<open>readlines()\<close> returns them.
\<close>

type_synonym ustring = "nat list"

definition ord_str :: "string \<Rightarrow> ustring" where
  "ord_str s = map of_char s"

text \<open>
  What the pattern and \<^verbatim>\<open>int()\<close> take from the Python interpreter, which is not part
  of the repository: the class \<^verbatim>\<open>\d\<close> of a \<^verbatim>\<open>str\<close> pattern (the decimal digits of the
  interpreter's Unicode database) with the value of each digit, the class \<^verbatim>\<open>\s\<close> (its
  white space), and the limit on the number of digits that \<^verbatim>\<open>int()\<close> converts
  (\<^verbatim>\<open>sys.get_int_max_str_digits()\<close>; 0 when there is no limit, as before Python 3.11).
\<close>

record py_runtime =
  uni_isdecimal :: "nat \<Rightarrow> bool"
  uni_todecimal :: "nat \<Rightarrow> int"
  uni_isspace :: "nat \<Rightarrow> bool"
  int_max_str_digits :: nat

text \<open>
  CPython 3.11 with Unicode 14.0: the decimal digits come in 66 runs of ten, listed by
  their zeros; white space is 29 code points; \<^verbatim>\<open>int()\<close> converts at most 4300 digits.
\<close>

definition decimal_zeros :: "nat list" where
  "decimal_zeros =
    [48, 1632, 1776, 1984, 2406, 2534, 2662, 2790, 2918, 3046, 3174, 3302, 3430, 3558,
     3664, 3792, 3872, 4160, 4240, 6112, 6160, 6470, 6608, 6784, 6800, 6992, 7088,
     7232, 7248, 42528, 43216, 43264, 43472, 43504, 43600, 44016, 65296, 66720, 68912,
     69734, 69872, 69942, 70096, 70384, 70736, 70864, 71248, 71360, 71472, 71904,
     72016, 72784, 73040, 73120, 92768, 92864, 93008, 120782, 120792, 120802, 120812,
     120822, 123200, 123632, 125264, 130032]"

definition white_space :: "nat list" where
  "white_space =
    [9, 10, 11, 12, 13, 28, 29, 30, 31, 32, 133, 160, 5760, 8192, 8193, 8194, 8195,
     8196, 8197, 8198, 8199, 8200, 8201, 8202, 8232, 8233, 8239, 8287, 12288]"

definition cpython_3_11 :: py_runtime where
  "cpython_3_11 =
     \<lparr>uni_isdecimal = (\<lambda>c. list_ex (\<lambda>z. z \<le> c \<and> c < z + 10) decimal_zeros),
      uni_todecimal = (\<lambda>c. case find (\<lambda>z. z \<le> c \<and> c < z + 10) decimal_zeros of
                               Some z \<Rightarrow> int (c - z)
                             | None \<Rightarrow> - 1),
      uni_isspace = (\<lambda>c. c \<in> set white_space),
      int_max_str_digits = 4300\<rparr>"

text \<open>
  \<^verbatim>\<open>int(s)\<close> on a string of decimal digits. Python integers are unbounded, but the
  conversion raises ValueError when the string has more digits than the limit (a limit
  is never below 640, and shorter strings are not checked).
\<close>

definition decimal_value :: "py_runtime \<Rightarrow> ustring \<Rightarrow> int" where
  "decimal_value rt ds = foldl (\<lambda>a c. 10 * a + uni_todecimal rt c) 0 ds"

definition py_int :: "py_runtime \<Rightarrow> ustring \<Rightarrow> py_error + int" where
  "py_int rt ds =
     (if 640 < length ds \<and> 0 < int_max_str_digits rt \<and> int_max_str_digits rt < length ds
      then Inl ValueError
      else Inr (decimal_value rt ds))"

text \<open>A literal piece of the pattern: the text must start with it; the rest is returned.\<close>

fun match_literal :: "ustring \<Rightarrow> ustring \<Rightarrow> ustring option" where
  "match_literal [] s = Some s"
| "match_literal (p # ps) [] = None"
| "match_literal (p # ps) (c # cs) = (if p = c then match_literal ps cs else None)"

definition dquote :: nat where
  "dquote = 34"

text \<open>
  \<^verbatim>\<open>ptrn.match(line)\<close>, anchored at the start of the line, returning the two groups.
  Each greedy repetition is followed by a character outside its class (a digit run by
  white space or a brace, white space by a brace or the letter n, the name by the
  double quote), so the match takes the longest run at each repetition and never has to
  give characters back.
\<close>

definition ptrn_match :: "py_runtime \<Rightarrow> ustring \<Rightarrow> (ustring \<times> ustring) option" where
  "ptrn_match rt line =
     (let g1 = takeWhile (uni_isdecimal rt) line;
          r1 = dropWhile (uni_isdecimal rt) line
      in if g1 = [] then None
         else (case match_literal (ord_str ''{'') (dropWhile (uni_isspace rt) r1) of
                 None \<Rightarrow> None
               | Some r2 \<Rightarrow>
                   (case match_literal (ord_str ''name='' @ [dquote])
                           (dropWhile (uni_isspace rt) r2) of
                      None \<Rightarrow> None
                    | Some r3 \<Rightarrow>
                        (let g2 = takeWhile (\<lambda>c. c \<noteq> dquote) r3;
                             r4 = dropWhile (\<lambda>c. c \<noteq> dquote) r3
                         in if g2 = [] then None
                            else (case match_literal [dquote] r4 of
                                    None \<Rightarrow> None
                                  | Some r5 \<Rightarrow> Some (g1, g2))))))"

text \<open>
  The loop of \<^verbatim>\<open>load_pgm_list\<close>, with its counter \<^verbatim>\<open>i\<close> and its result list:
  \<^verbatim>\<open>
  i=0
  for line in lines:
      m=ptrn.match(line)
      if m:
          try:
              prg=int(m.group(1))-1
              title=m.group(2)
              if prg>=0:
                  pgm_list.append((i,[0,0,prg],title))
                  i=i+1
          except:
              pass
  return pgm_list
  \<close>
  When \<^verbatim>\<open>int()\<close> raises, the \<^verbatim>\<open>except\<close> clause skips the line.
\<close>

type_synonym pgm = "int \<times> int list \<times> ustring"

fun load_pgm_loop :: "py_runtime \<Rightarrow> ustring list \<Rightarrow> int \<Rightarrow> pgm list \<Rightarrow> pgm list" where
  "load_pgm_loop rt [] i pgm_list = pgm_list"
| "load_pgm_loop rt (line # lines) i pgm_list =
     (case ptrn_match rt line of
        None \<Rightarrow> load_pgm_loop rt lines i pgm_list
      | Some (g1, g2) \<Rightarrow>
          (case py_int rt g1 of
             Inl e \<Rightarrow> load_pgm_loop rt lines i pgm_list
           | Inr n \<Rightarrow>
               (let prg = n - 1;
                    title = g2
                in if prg \<ge> 0
                   then load_pgm_loop rt lines (i + 1) (pgm_list @ [(i, [0, 0, prg], title)])
                   else load_pgm_loop rt lines i pgm_list)))"

definition load_pgm_list :: "py_runtime \<Rightarrow> ustring list \<Rightarrow> pgm list" where
  "load_pgm_list rt lines = load_pgm_loop rt lines 0 []"

text \<open>
  The pattern as a description of the line, in the words of the specification: an
  integer, optional white space, a brace, optional white space, then \<^verbatim>\<open>name="..."\<close> with
  a non-empty name that holds no double quote.
\<close>

definition pattern_line :: "py_runtime \<Rightarrow> ustring \<Rightarrow> ustring \<Rightarrow> ustring \<Rightarrow> bool" where
  "pattern_line rt line ds title \<longleftrightarrow>
     (\<exists>ws1 ws2 rest.
        line = ds @ ws1 @ ord_str ''{'' @ ws2 @ ord_str ''name='' @ [dquote] @ title @
               [dquote] @ rest \<and>
        ds \<noteq> [] \<and> list_all (uni_isdecimal rt) ds \<and>
        list_all (uni_isspace rt) ws1 \<and> list_all (uni_isspace rt) ws2 \<and>
        title \<noteq> [] \<and> list_all (\<lambda>c. c \<noteq> dquote) title)"

text \<open>
  What the scanner needs of the two classes, and what every Unicode database gives: no
  white space is a digit, the brace is neither, and the letter n is not white space.
\<close>

definition classes_apart :: "py_runtime \<Rightarrow> bool" where
  "classes_apart rt \<longleftrightarrow>
     (\<forall>c. \<not> (uni_isspace rt c \<and> uni_isdecimal rt c)) \<and>
     \<not> uni_isdecimal rt 123 \<and> \<not> uni_isspace rt 123 \<and> \<not> uni_isspace rt 110"

text \<open>What one line adds to the list: its leading integer and its name, or nothing.\<close>

definition line_entry :: "py_runtime \<Rightarrow> ustring \<Rightarrow> (int \<times> ustring) option" where
  "line_entry rt line =
     (case ptrn_match rt line of
        None \<Rightarrow> None
      | Some (g1, g2) \<Rightarrow>
          (case py_int rt g1 of
             Inl e \<Rightarrow> None
           | Inr n \<Rightarrow> if n - 1 \<ge> 0 then Some (n, g2) else None))"

section \<open>Mixer wrapper: outcomes, indexing, the controller cache\<close>

text \<open>
  A method either returns or raises; in both cases the object is left in some state,
  since what a method did before it raised is not undone.
\<close>

datatype 's outcome = Return 's | Raise py_error 's

definition state_of :: "'s outcome \<Rightarrow> 's" where
  "state_of r = (case r of Return s \<Rightarrow> s | Raise e s \<Rightarrow> s)"

definition raised :: "'s outcome \<Rightarrow> py_error option" where
  "raised r = (case r of Return s \<Rightarrow> None | Raise e s \<Rightarrow> Some e)"

definition and_then :: "'s outcome \<Rightarrow> ('s \<Rightarrow> 's outcome) \<Rightarrow> 's outcome" where
  "and_then r f = (case r of Return s \<Rightarrow> f s | Raise e s \<Rightarrow> Raise e s)"

text \<open>A \<^verbatim>\<open>for\<close> loop whose body may raise: the first exception ends it.\<close>

fun for_each :: "('a \<Rightarrow> 's \<Rightarrow> 's outcome) \<Rightarrow> 'a list \<Rightarrow> 's \<Rightarrow> 's outcome" where
  "for_each body [] s = Return s"
| "for_each body (x # xs) s = and_then (body x s) (for_each body xs)"

text \<open>
  \<^verbatim>\<open>xs[i]\<close> on a Python list: an integer index counts from the end when negative and
  raises IndexError out of range; \<^verbatim>\<open>None\<close> or a dictionary as index raises TypeError.
  The result is the position in the list.
\<close>

datatype py_index = IntIndex int | NoneIndex | DictIndex

fun list_pos :: "'a list \<Rightarrow> py_index \<Rightarrow> py_error + nat" where
  "list_pos xs (IntIndex i) =
     (let n = int (length xs)
      in if 0 \<le> i \<and> i < n then Inr (nat i)
         else if - n \<le> i \<and> i < 0 then Inr (nat (n + i))
         else Inl IndexError)"
| "list_pos xs NoneIndex = Inl TypeError"
| "list_pos xs DictIndex = Inl TypeError"

text \<open>\<^verbatim>\<open>range(n)\<close> for an integer \<open>n\<close>.\<close>

definition py_range :: "int \<Rightarrow> int list" where
  "py_range n = map int [0..<nat n]"

text \<open>
  Modelled from the spec: the class \<^verbatim>\<open>zynthian_controller\<close> is not among the sources.
  The specification says that the wrapper "caches last-known values for snapshot
  persistence": a controller holds its symbol, its channel, the last value set and its
  default; \<^verbatim>\<open>set_value\<close> stores the value, \<^verbatim>\<open>reset_value\<close> stores the default, and
  \<^verbatim>\<open>get_state\<close> gives the dictionary with the key \<^verbatim>\<open>value\<close> that \<^verbatim>\<open>set_state\<close> of the
  wrapper reads (every value when \<^verbatim>\<open>full\<close>, else the values off their default).
  Sending a value to the engine (\<^verbatim>\<open>set_value(v, True)\<close>) is \<open>send_controller_value\<close>
  of the wrapper, below.
\<close>

record zynthian_controller =
  symbol :: string
  midi_chan :: int
  value_cur :: pyval
  value_default :: pyval

definition zctrl_set_value :: "pyval \<Rightarrow> zynthian_controller \<Rightarrow> zynthian_controller" where
  "zctrl_set_value v c = c\<lparr>value_cur := v\<rparr>"

definition zctrl_reset_value :: "zynthian_controller \<Rightarrow> zynthian_controller" where
  "zctrl_reset_value c = c\<lparr>value_cur := value_default c\<rparr>"

type_synonym ctrl_state = "(string \<times> pyval) list"

definition zctrl_get_state :: "bool \<Rightarrow> zynthian_controller \<Rightarrow> ctrl_state" where
  "zctrl_get_state full c =
     (if full \<or> value_cur c \<noteq> value_default c then [(''value'', value_cur c)] else [])"

text \<open>
  Modelled from the spec: the native mixer library is "external" and "loaded
  dynamically". It is the list of calls made to it, the number of channels it reports
  (a count, the same at every call), the width of a C \<^verbatim>\<open>long\<close> on the machine and what
  its getters answer after a given list of calls. \<open>lib_get_solo\<close> is the function that
  \<^verbatim>\<open>toggle_solo\<close> asks the library for under the name \<^verbatim>\<open>get_solo\<close>; it is \<open>None\<close> when
  the library exports no such function.
\<close>

datatype lib_call = LibInit | LibEnd
  | SetLevel int pyval | SetBalance int pyval
  | SetMute "int option" pyval | ToggleMute int
  | SetPhase int pyval | TogglePhase int
  | SetSolo int pyval | SetMono int pyval
  | EnableDpm int int | AddOscClient string | RemoveOscClient string

record zynmixer_lib =
  calls :: "lib_call list"
  c_long_bits :: nat
  getMaxChannels :: nat
  getLevel :: "lib_call list \<Rightarrow> int \<Rightarrow> pyval"
  getBalance :: "lib_call list \<Rightarrow> int \<Rightarrow> pyval"
  getMute :: "lib_call list \<Rightarrow> int \<Rightarrow> pyval"
  getPhase :: "lib_call list \<Rightarrow> int \<Rightarrow> pyval"
  getSolo :: "lib_call list \<Rightarrow> int \<Rightarrow> int"
  getMono :: "lib_call list \<Rightarrow> int \<Rightarrow> int"
  getDpm :: "lib_call list \<Rightarrow> int \<Rightarrow> int \<Rightarrow> pyval"
  getDpmHold :: "lib_call list \<Rightarrow> int \<Rightarrow> int \<Rightarrow> pyval"
  lib_get_solo :: "(lib_call list \<Rightarrow> int \<Rightarrow> pyval) option"

text \<open>
  What \<^verbatim>\<open>ctypes\<close> refuses. \<^verbatim>\<open>ctypes.c_float(x)\<close> takes a number: it raises TypeError on
  \<^verbatim>\<open>None\<close> and on a string, and OverflowError on an integer too large for a double. An
  argument passed to a library function as it is may be \<^verbatim>\<open>None\<close>, a string or an
  integer that fits the C \<^verbatim>\<open>long\<close> (signed or unsigned); a float and a larger integer
  raise ArgumentError.
\<close>

fun c_float_error :: "pyval \<Rightarrow> py_error option" where
  "c_float_error (PyFloat r) = None"
| "c_float_error (PyInt i) =
     (if \<bar>i\<bar> < 2 ^ 1024 - 2 ^ 970 then None else Some OverflowError)"
| "c_float_error (PyBool b) = None"
| "c_float_error PyNone = Some TypeError"
| "c_float_error (PyStr s) = Some TypeError"

definition c_int_error :: "nat \<Rightarrow> int \<Rightarrow> py_error option" where
  "c_int_error bits i =
     (if - (2 ^ (bits - 1)) \<le> i \<and> i < 2 ^ bits then None else Some ArgumentError)"

fun c_arg_error :: "nat \<Rightarrow> pyval \<Rightarrow> py_error option" where
  "c_arg_error bits (PyFloat r) = Some ArgumentError"
| "c_arg_error bits (PyInt i) = c_int_error bits i"
| "c_arg_error bits v = None"

text \<open>The first exception of several steps taken in order.\<close>

fun first_error :: "py_error option list \<Rightarrow> py_error option" where
  "first_error [] = None"
| "first_error (None # es) = first_error es"
| "first_error (Some e # es) = Some e"

text \<open>
  Calls out of the wrapper whose code is elsewhere: \<^verbatim>\<open>midi_control_change(val)\<close> of a
  learned controller, the learn callback, the processor callback of \<^verbatim>\<open>send_update\<close>,
  a logged warning and the inherited \<^verbatim>\<open>set_midi_learn\<close>.
\<close>

datatype 'z event =
    CtrlMidiCC 'z int
  | MidiLearnCb
  | ProcessorCb "int option" string pyval
  | LogWarning py_error
  | SetMidiLearn nat string pyval pyval

type_synonym strip = "(string \<times> zynthian_controller) list"

text \<open>
  The fields of \<^verbatim>\<open>zynmixer\<close>. A dictionary is the list of its items in the order of
  insertion. A learned controller is a reference \<open>'z\<close> to a controller object;
  \<^verbatim>\<open>==\<close> on controllers is equality of references. \<open>midi_learn_cb\<close> and
  \<open>processor_cb\<close> say whether a callback is set.
\<close>

record 'z zynmixer =
  lib_zynmixer :: "zynmixer_lib option"
  zctrls :: "strip list"
  learned_cc :: "(int \<times> 'z) list list"
  midi_learn_zctrl :: "'z option"
  midi_learn_cb :: bool
  MAX_NUM_CHANNELS :: int
  processor_cb :: bool
  events :: "'z event list"

subsection \<open>Getters\<close>

text \<open>
  Each getter asks the library when \<^verbatim>\<open>self.lib_zynmixer\<close> is set and falls back to a
  constant otherwise, as in
  \<^verbatim>\<open>
  def get_level(self, channel):
      if self.lib_zynmixer:
          return self.lib_zynmixer.getLevel(channel)
      return 0
  \<close>
\<close>

definition get_max_channels :: "'z zynmixer \<Rightarrow> int" where
  "get_max_channels s =
     (case lib_zynmixer s of Some l \<Rightarrow> int (getMaxChannels l) | None \<Rightarrow> 0)"

definition get_level :: "'z zynmixer \<Rightarrow> int \<Rightarrow> pyval" where
  "get_level s channel =
     (case lib_zynmixer s of Some l \<Rightarrow> getLevel l (calls l) channel | None \<Rightarrow> PyInt 0)"

definition get_balance :: "'z zynmixer \<Rightarrow> int \<Rightarrow> pyval" where
  "get_balance s channel =
     (case lib_zynmixer s of Some l \<Rightarrow> getBalance l (calls l) channel | None \<Rightarrow> PyInt 0)"

definition get_mute :: "'z zynmixer \<Rightarrow> int \<Rightarrow> pyval" where
  "get_mute s channel =
     (case lib_zynmixer s of Some l \<Rightarrow> getMute l (calls l) channel | None \<Rightarrow> PyBool True)"

definition get_phase :: "'z zynmixer \<Rightarrow> int \<Rightarrow> pyval" where
  "get_phase s channel =
     (case lib_zynmixer s of Some l \<Rightarrow> getPhase l (calls l) channel | None \<Rightarrow> PyBool True)"

definition get_solo :: "'z zynmixer \<Rightarrow> int \<Rightarrow> pyval" where
  "get_solo s channel =
     (case lib_zynmixer s of
        Some l \<Rightarrow> PyBool (getSolo l (calls l) channel = 1)
      | None \<Rightarrow> PyBool True)"

definition get_mono :: "'z zynmixer \<Rightarrow> int \<Rightarrow> pyval" where
  "get_mono s channel =
     (case lib_zynmixer s of
        Some l \<Rightarrow> PyBool (getMono l (calls l) channel = 1)
      | None \<Rightarrow> PyBool True)"

definition get_dpm :: "'z zynmixer \<Rightarrow> int \<Rightarrow> int \<Rightarrow> pyval" where
  "get_dpm s channel leg =
     (case lib_zynmixer s of
        Some l \<Rightarrow> getDpm l (calls l) channel leg
      | None \<Rightarrow> PyFloat (- 200))"

definition get_dpm_hold :: "'z zynmixer \<Rightarrow> int \<Rightarrow> int \<Rightarrow> pyval" where
  "get_dpm_hold s channel leg =
     (case lib_zynmixer s of
        Some l \<Rightarrow> getDpmHold l (calls l) channel leg
      | None \<Rightarrow> PyFloat (- 200))"

subsection \<open>Construction and destruction\<close>

definition zctrl_new :: "string \<Rightarrow> int \<Rightarrow> pyval \<Rightarrow> pyval \<Rightarrow> zynthian_controller" where
  "zctrl_new name chan dflt v =
     \<lparr>symbol = name, midi_chan = chan, value_cur = v, value_default = dflt\<rparr>"

definition strip_dict :: "'z zynmixer \<Rightarrow> int \<Rightarrow> strip" where
  "strip_dict s i =
     [(''level'', zctrl_new ''level'' i (PyFloat 0.8) (get_level s i)),
      (''balance'', zctrl_new ''balance'' i (PyFloat 0.0) (get_balance s i)),
      (''mute'', zctrl_new ''mute'' i (PyInt 0) (get_mute s i)),
      (''solo'', zctrl_new ''solo'' i (PyInt 0) (get_solo s i)),
      (''mono'', zctrl_new ''mono'' i (PyInt 0) (get_mono s i)),
      (''phase'', zctrl_new ''phase'' i (PyInt 0) (get_phase s i))]"

text \<open>
  \<^verbatim>\<open>__init__\<close>. \<open>load\<close> is what the \<^verbatim>\<open>try\<close> block leaves in \<^verbatim>\<open>lib_zynmixer\<close>: the
  library after its \<^verbatim>\<open>init()\<close>, or \<open>None\<close> when loading raised. \<open>cb\<close> is what the
  constructor of the base class leaves in \<^verbatim>\<open>processor_cb\<close>. The last statement,
  \<^verbatim>\<open>self.MAX_NUM_CHANNELS = self.lib_zynmixer.getMaxChannels()\<close>, is not guarded: without
  a library it raises AttributeError and no instance is constructed (the field is
  shown as 0 in the state that is thrown away).
\<close>

definition zynmixer_init :: "zynmixer_lib option \<Rightarrow> bool \<Rightarrow> 'z zynmixer outcome" where
  "zynmixer_init load cb =
     (let s = \<lparr>lib_zynmixer = map_option (\<lambda>l. l\<lparr>calls := calls l @ [LibInit]\<rparr>) load,
               zctrls = [],
               learned_cc = replicate 16 [],
               midi_learn_zctrl = None,
               midi_learn_cb = False,
               MAX_NUM_CHANNELS = 0,
               processor_cb = cb,
               events = []\<rparr>;
          s = s\<lparr>zctrls := map (strip_dict s) (py_range (get_max_channels s + 1))\<rparr>
      in case lib_zynmixer s of
           None \<Rightarrow> Raise AttributeError s
         | Some l \<Rightarrow> Return (s\<lparr>MAX_NUM_CHANNELS := int (getMaxChannels l)\<rparr>))"

definition lib_call_made :: "'z zynmixer \<Rightarrow> lib_call \<Rightarrow> 'z zynmixer" where
  "lib_call_made s c =
     (case lib_zynmixer s of
        None \<Rightarrow> s
      | Some l \<Rightarrow> s\<lparr>lib_zynmixer := Some (l\<lparr>calls := calls l @ [c]\<rparr>)\<rparr>)"

text \<open>
  \<^verbatim>\<open>
  def destroy(self):
      if self.lib_zynmixer:
          self.lib_zynmixer.end()
          ctypes.dlclose(self.lib_zynmixer._handle)
      self.lib_zynmixer = None
  \<close>
  The module \<^verbatim>\<open>ctypes\<close> has no attribute \<^verbatim>\<open>dlclose\<close>: with a library loaded the
  second statement of the branch raises AttributeError, after \<^verbatim>\<open>end()\<close> has been
  called and before the assignment.
\<close>

definition destroy :: "'z zynmixer \<Rightarrow> 'z zynmixer outcome" where
  "destroy s =
     (case lib_zynmixer s of
        Some l \<Rightarrow> Raise AttributeError (lib_call_made s LibEnd)
      | None \<Rightarrow> Return (s\<lparr>lib_zynmixer := None\<rparr>))"

subsection \<open>The cache and the setters\<close>

definition zctrl_at ::
  "'z zynmixer \<Rightarrow> py_index \<Rightarrow> string \<Rightarrow> py_error + (nat \<times> zynthian_controller)" where
  "zctrl_at s ix name =
     (case list_pos (zctrls s) ix of
        Inl e \<Rightarrow> Inl e
      | Inr p \<Rightarrow>
          (case map_of (zctrls s ! p) name of
             None \<Rightarrow> Inl KeyError
           | Some c \<Rightarrow> Inr (p, c)))"

definition zctrl_store ::
  "'z zynmixer \<Rightarrow> nat \<Rightarrow> string \<Rightarrow> zynthian_controller \<Rightarrow> 'z zynmixer" where
  "zctrl_store s p name c =
     s\<lparr>zctrls := (zctrls s)[p := AList.update name c (zctrls s ! p)]\<rparr>"

text \<open>
  \<^verbatim>\<open>self.zctrls[channel][name].reset_value()\<close>: the controller is looked up, changed
  and stored.
\<close>

definition cache_apply ::
  "'z zynmixer \<Rightarrow> py_index \<Rightarrow> string \<Rightarrow> (zynthian_controller \<Rightarrow> zynthian_controller) \<Rightarrow>
   'z zynmixer outcome" where
  "cache_apply s ix name f =
     (case zctrl_at s ix name of
        Inl e \<Rightarrow> Raise e s
      | Inr (p, c) \<Rightarrow> Return (zctrl_store s p name (f c)))"

text \<open>
  \<^verbatim>\<open>self.zctrls[channel][name].set_value(arg, False)\<close>: Python looks the controller up
  first and evaluates the argument second; either step may raise.
\<close>

definition cache_set_value ::
  "'z zynmixer \<Rightarrow> py_index \<Rightarrow> string \<Rightarrow> py_error + pyval \<Rightarrow> 'z zynmixer outcome" where
  "cache_set_value s ix name arg =
     (case zctrl_at s ix name of
        Inl e \<Rightarrow> Raise e s
      | Inr (p, c) \<Rightarrow>
          (case arg of
             Inl e \<Rightarrow> Raise e s
           | Inr v \<Rightarrow> Return (zctrl_store s p name (zctrl_set_value v c))))"

text \<open>
  \<^verbatim>\<open>self.lib_zynmixer.f(...)\<close> outside an \<^verbatim>\<open>if self.lib_zynmixer\<close>: without a library
  the attribute lookup on \<^verbatim>\<open>None\<close> raises AttributeError.
\<close>

definition lib_unguarded ::
  "'z zynmixer \<Rightarrow> (zynmixer_lib \<Rightarrow> py_error + pyval) \<Rightarrow> py_error + pyval" where
  "lib_unguarded s f = (case lib_zynmixer s of None \<Rightarrow> Inl AttributeError | Some l \<Rightarrow> f l)"

text \<open>
  \<^verbatim>\<open>if self.lib_zynmixer: self.lib_zynmixer.f(...)\<close>: without a library nothing happens;
  with one, the call is made unless converting its arguments raises.
\<close>

definition lib_guarded ::
  "'z zynmixer \<Rightarrow> (zynmixer_lib \<Rightarrow> py_error option) \<Rightarrow> lib_call \<Rightarrow> 'z zynmixer outcome" where
  "lib_guarded s errs c =
     (case lib_zynmixer s of
        None \<Rightarrow> Return s
      | Some l \<Rightarrow>
          (case errs l of
             Some e \<Rightarrow> Raise e s
           | None \<Rightarrow> Return (lib_call_made s c)))"

definition send_update :: "'z zynmixer \<Rightarrow> int option \<Rightarrow> string \<Rightarrow> pyval \<Rightarrow> 'z zynmixer" where
  "send_update s chan ctrl v =
     (if processor_cb s then s\<lparr>events := events s @ [ProcessorCb chan ctrl v]\<rparr> else s)"

definition clamp_channel :: "'z zynmixer \<Rightarrow> int \<Rightarrow> int" where
  "clamp_channel s channel =
     (if channel \<ge> MAX_NUM_CHANNELS s then MAX_NUM_CHANNELS s else channel)"

text \<open>
  The five setters with one shape (\<^verbatim>\<open>set_level\<close>, \<^verbatim>\<open>set_balance\<close>, \<^verbatim>\<open>set_phase\<close>,
  \<^verbatim>\<open>set_solo\<close>, \<^verbatim>\<open>set_mono\<close>):
  \<^verbatim>\<open>
  def set_level(self, channel, level, update=True):
      if channel >= self.MAX_NUM_CHANNELS:
          channel = self.MAX_NUM_CHANNELS
      if self.lib_zynmixer:
          self.lib_zynmixer.setLevel(channel, ctypes.c_float(level))
      if update:
          self.zctrls[channel]['level'].set_value(level, False)
      self.send_update(channel, 'level', level)
  \<close>
  \<open>errs\<close> is what converting the arguments may raise and \<open>call\<close> is the library
  function. The call is recorded with the Python value it was given.
\<close>

definition setter ::
  "string \<Rightarrow> (nat \<Rightarrow> int \<Rightarrow> pyval \<Rightarrow> py_error option) \<Rightarrow> (int \<Rightarrow> pyval \<Rightarrow> lib_call) \<Rightarrow>
   'z zynmixer \<Rightarrow> int \<Rightarrow> pyval \<Rightarrow> bool \<Rightarrow> 'z zynmixer outcome" where
  "setter name errs call s channel v update =
     (let channel = clamp_channel s channel
      in and_then
           (lib_guarded s (\<lambda>l. errs (c_long_bits l) channel v) (call channel v))
           (\<lambda>s. and_then
                  (if update then cache_set_value s (IntIndex channel) name (Inr v)
                   else Return s)
                  (\<lambda>s. Return (send_update s (Some channel) name v))))"

definition float_errs :: "nat \<Rightarrow> int \<Rightarrow> pyval \<Rightarrow> py_error option" where
  "float_errs bits channel v = first_error [c_float_error v, c_int_error bits channel]"

definition plain_errs :: "nat \<Rightarrow> int \<Rightarrow> pyval \<Rightarrow> py_error option" where
  "plain_errs bits channel v = first_error [c_int_error bits channel, c_arg_error bits v]"

definition set_level :: "'z zynmixer \<Rightarrow> int \<Rightarrow> pyval \<Rightarrow> bool \<Rightarrow> 'z zynmixer outcome" where
  "set_level = setter ''level'' float_errs SetLevel"

definition set_balance :: "'z zynmixer \<Rightarrow> int \<Rightarrow> pyval \<Rightarrow> bool \<Rightarrow> 'z zynmixer outcome" where
  "set_balance = setter ''balance'' float_errs SetBalance"

definition set_phase :: "'z zynmixer \<Rightarrow> int \<Rightarrow> pyval \<Rightarrow> bool \<Rightarrow> 'z zynmixer outcome" where
  "set_phase = setter ''phase'' plain_errs SetPhase"

definition set_solo :: "'z zynmixer \<Rightarrow> int \<Rightarrow> pyval \<Rightarrow> bool \<Rightarrow> 'z zynmixer outcome" where
  "set_solo = setter ''solo'' plain_errs SetSolo"

definition set_mono :: "'z zynmixer \<Rightarrow> int \<Rightarrow> pyval \<Rightarrow> bool \<Rightarrow> 'z zynmixer outcome" where
  "set_mono = setter ''mono'' plain_errs SetMono"

text \<open>
  \<^verbatim>\<open>set_mute\<close> accepts \<^verbatim>\<open>None\<close> as channel and leaves it as it is; its \<^verbatim>\<open>update\<close>
  is False unless given:
  \<^verbatim>\<open>
  def set_mute(self, channel, mute, update=False):
      if channel is not None and channel >= self.MAX_NUM_CHANNELS:
          channel = self.MAX_NUM_CHANNELS
      if self.lib_zynmixer:
          self.lib_zynmixer.setMute(channel, mute)
      if update:
          self.zctrls[channel]['mute'].set_value(mute, False)
      self.send_update(channel, 'mute', mute)
  \<close>
\<close>

definition mute_errs :: "nat \<Rightarrow> int option \<Rightarrow> pyval \<Rightarrow> py_error option" where
  "mute_errs bits channel v =
     first_error [case channel of None \<Rightarrow> None | Some c \<Rightarrow> c_int_error bits c,
                  c_arg_error bits v]"

definition set_mute ::
  "'z zynmixer \<Rightarrow> int option \<Rightarrow> pyval \<Rightarrow> bool \<Rightarrow> 'z zynmixer outcome" where
  "set_mute s channel mute update =
     (let channel = map_option (clamp_channel s) channel
      in and_then
           (lib_guarded s (\<lambda>l. mute_errs (c_long_bits l) channel mute) (SetMute channel mute))
           (\<lambda>s. and_then
                  (if update
                   then cache_set_value s
                          (case channel of None \<Rightarrow> NoneIndex | Some c \<Rightarrow> IntIndex c)
                          ''mute'' (Inr mute)
                   else Return s)
                  (\<lambda>s. Return (send_update s channel ''mute'' mute))))"

text \<open>
  \<^verbatim>\<open>toggle_mute\<close> clamps the channel and calls the library; it does not touch the
  cache.
\<close>

definition toggle_mute :: "'z zynmixer \<Rightarrow> int \<Rightarrow> 'z zynmixer outcome" where
  "toggle_mute s channel =
     (let channel = clamp_channel s channel
      in lib_guarded s (\<lambda>l. c_int_error (c_long_bits l) channel) (ToggleMute channel))"

text \<open>
  \<^verbatim>\<open>
  def toggle_phase(self, channel, update=True):
      if channel >= self.MAX_NUM_CHANNELS:
          channel = self.MAX_NUM_CHANNELS
      if self.lib_zynmixer:
          self.lib_zynmixer.togglePhase(channel)
      if update:
          self.zctrls[channel]['phase'].set_value(self.lib_zynmixer.getPhase(channel), False)
  \<close>
\<close>

definition toggle_phase :: "'z zynmixer \<Rightarrow> int \<Rightarrow> bool \<Rightarrow> 'z zynmixer outcome" where
  "toggle_phase s channel update =
     (let channel = clamp_channel s channel
      in and_then
           (lib_guarded s (\<lambda>l. c_int_error (c_long_bits l) channel) (TogglePhase channel))
           (\<lambda>s. if update
                 then cache_set_value s (IntIndex channel) ''phase''
                        (lib_unguarded s (\<lambda>l. Inr (getPhase l (calls l) channel)))
                 else Return s))"

text \<open>
  \<^verbatim>\<open>
  def toggle_solo(self, channel, update=True):
      if channel >= self.MAX_NUM_CHANNELS:
          channel = self.MAX_NUM_CHANNELS
      if self.lib_zynmixer:
          if self.get_solo(channel):
              self.set_solo(channel, False)
          else:
              self.set_solo(channel, True)
      if update:
          self.zctrls[channel]['solo'].set_value(self.lib_zynmixer.get_solo(channel), False)
  \<close>
  The last statement asks the library handle for \<^verbatim>\<open>get_solo\<close>.
\<close>

definition toggle_solo :: "'z zynmixer \<Rightarrow> int \<Rightarrow> bool \<Rightarrow> 'z zynmixer outcome" where
  "toggle_solo s channel update =
     (let channel = clamp_channel s channel
      in and_then
           (case lib_zynmixer s of
              None \<Rightarrow> Return s
            | Some l \<Rightarrow>
                (if get_solo s channel = PyBool True
                 then set_solo s channel (PyBool False) True
                 else set_solo s channel (PyBool True) True))
           (\<lambda>s. if update
                 then cache_set_value s (IntIndex channel) ''solo''
                        (lib_unguarded s
                           (\<lambda>l. case lib_get_solo l of
                                   None \<Rightarrow> Inl AttributeError
                                 | Some f \<Rightarrow> Inr (f (calls l) channel)))
                 else Return s))"

text \<open>
  \<^verbatim>\<open>toggle_mono\<close> is \<^verbatim>\<open>toggle_solo\<close> with \<^verbatim>\<open>get_mono\<close> and \<^verbatim>\<open>set_mono\<close>, and its last
  statement asks the library for \<^verbatim>\<open>getMono(channel)\<close>.
\<close>

definition toggle_mono :: "'z zynmixer \<Rightarrow> int \<Rightarrow> bool \<Rightarrow> 'z zynmixer outcome" where
  "toggle_mono s channel update =
     (let channel = clamp_channel s channel
      in and_then
           (case lib_zynmixer s of
              None \<Rightarrow> Return s
            | Some l \<Rightarrow>
                (if get_mono s channel = PyBool True
                 then set_mono s channel (PyBool False) True
                 else set_mono s channel (PyBool True) True))
           (\<lambda>s. if update
                 then cache_set_value s (IntIndex channel) ''mono''
                        (lib_unguarded s (\<lambda>l. Inr (PyInt (getMono l (calls l) channel))))
                 else Return s))"

text \<open>
  The meters and the OSC clients only call the library.
  \<^verbatim>\<open>
  def enable_dpm(self, chan, enable):
      if self.lib_zynmixer is None:
          return
      self.lib_zynmixer.enableDpm(chan, int(enable))
  \<close>
\<close>

definition enable_dpm :: "'z zynmixer \<Rightarrow> int \<Rightarrow> bool \<Rightarrow> 'z zynmixer outcome" where
  "enable_dpm s chan enable =
     lib_guarded s (\<lambda>l. c_int_error (c_long_bits l) chan)
       (EnableDpm chan (if enable then 1 else 0))"

definition add_osc_client :: "'z zynmixer \<Rightarrow> string \<Rightarrow> 'z zynmixer outcome" where
  "add_osc_client s client = lib_guarded s (\<lambda>l. None) (AddOscClient client)"

definition remove_osc_client :: "'z zynmixer \<Rightarrow> string \<Rightarrow> 'z zynmixer outcome" where
  "remove_osc_client s client = lib_guarded s (\<lambda>l. None) (RemoveOscClient client)"

subsection \<open>Reset\<close>

text \<open>
  \<^verbatim>\<open>
  def reset(self, channel):
      if not isinstance(channel, int):
          return
      if channel >= self.MAX_NUM_CHANNELS:
          channel = self.MAX_NUM_CHANNELS
      self.zctrls[channel]['level'].reset_value()
      self.zctrls[channel]['balance'].reset_value()
      self.zctrls[channel]['mute'].reset_value()
      self.zctrls[channel]['mono'].reset_value()
      self.zctrls[channel]['solo'].reset_value()
      self.zctrls[channel]['phase'].reset_value()
  \<close>
  A Python \<^verbatim>\<open>bool\<close> is an \<^verbatim>\<open>int\<close> (0 or 1).
\<close>

definition reset_channel :: "'z zynmixer \<Rightarrow> int \<Rightarrow> 'z zynmixer outcome" where
  "reset_channel s channel =
     (let channel = clamp_channel s channel
      in for_each (\<lambda>name s. cache_apply s (IntIndex channel) name zctrl_reset_value)
           [''level'', ''balance'', ''mute'', ''mono'', ''solo'', ''phase''] s)"

fun reset :: "'z zynmixer \<Rightarrow> pyval \<Rightarrow> 'z zynmixer outcome" where
  "reset s (PyInt channel) = reset_channel s channel"
| "reset s (PyBool b) = reset_channel s (if b then 1 else 0)"
| "reset s channel = Return s"

definition reset_state :: "'z zynmixer \<Rightarrow> 'z zynmixer outcome" where
  "reset_state s =
     for_each (\<lambda>channel s. reset s (PyInt channel)) (py_range (get_max_channels s + 1)) s"

subsection \<open>Snapshots\<close>

text \<open>\<^verbatim>\<open>'chan_{:02d}'.format(chan)\<close> for a channel number from \<^verbatim>\<open>range\<close>.\<close>

definition digit_char :: "nat \<Rightarrow> char" where
  "digit_char d = char_of (48 + d)"

fun dec :: "nat \<Rightarrow> string" where
  "dec n = (if n < 10 then [digit_char n] else dec (n div 10) @ [digit_char (n mod 10)])"

definition format_02d :: "nat \<Rightarrow> string" where
  "format_02d n = (if n < 10 then ''0'' @ dec n else dec n)"

definition chan_key :: "'z zynmixer \<Rightarrow> nat \<Rightarrow> string" where
  "chan_key s chan =
     (if int chan < get_max_channels s then ''chan_'' @ format_02d chan else ''main'')"

type_synonym chan_state = "(string \<times> ctrl_state) list"
type_synonym mixer_state = "(string \<times> chan_state) list"

text \<open>
  \<^verbatim>\<open>
  def get_state(self, full=True):
      state = {}
      for chan in range(self.get_max_channels() + 1):
          if chan < self.get_max_channels():
              key = 'chan_{:02d}'.format(chan)
          else:
              key = 'main'
          chan_state = {}
          for symbol in self.zctrls[chan]:
              zctrl = self.zctrls[chan][symbol]
              ctrl_state = zctrl.get_state(full)
              if ctrl_state:
                  chan_state[zctrl.symbol] = ctrl_state
          if chan_state:
              state[key] = chan_state
      return state
  \<close>
\<close>

definition get_chan_state :: "bool \<Rightarrow> strip \<Rightarrow> chan_state" where
  "get_chan_state full strip =
     fold (\<lambda>(name, zctrl) chan_state.
             let ctrl_state = zctrl_get_state full zctrl
             in if ctrl_state \<noteq> [] then AList.update (symbol zctrl) ctrl_state chan_state
                else chan_state)
          strip []"

fun get_state_loop ::
  "'z zynmixer \<Rightarrow> bool \<Rightarrow> nat list \<Rightarrow> mixer_state \<Rightarrow> py_error + mixer_state" where
  "get_state_loop s full [] state = Inr state"
| "get_state_loop s full (chan # chans) state =
     (case list_pos (zctrls s) (IntIndex (int chan)) of
        Inl e \<Rightarrow> Inl e
      | Inr p \<Rightarrow>
          (let key = chan_key s chan;
               chan_state = get_chan_state full (zctrls s ! p)
           in get_state_loop s full chans
                (if chan_state \<noteq> [] then AList.update key chan_state state else state)))"

definition get_state :: "'z zynmixer \<Rightarrow> bool \<Rightarrow> py_error + mixer_state" where
  "get_state s full = get_state_loop s full [0..<nat (get_max_channels s + 1)] []"

text \<open>
  \<^verbatim>\<open>
  def send_controller_value(self, zctrl):
      try:
          getattr(self, 'set_{}'.format(zctrl.symbol))(zctrl.midi_chan, zctrl.value, False)
      except Exception as e:
          logging.warning(e)
  \<close>
  The strips hold controllers of the six symbols; for another name the model takes the
  lookup of the setter to fail.
\<close>

definition send_controller_value :: "'z zynmixer \<Rightarrow> zynthian_controller \<Rightarrow> 'z zynmixer" where
  "send_controller_value s zctrl =
     (let r = (if symbol zctrl = ''level''
               then set_level s (midi_chan zctrl) (value_cur zctrl) False
               else if symbol zctrl = ''balance''
               then set_balance s (midi_chan zctrl) (value_cur zctrl) False
               else if symbol zctrl = ''mute''
               then set_mute s (Some (midi_chan zctrl)) (value_cur zctrl) False
               else if symbol zctrl = ''phase''
               then set_phase s (midi_chan zctrl) (value_cur zctrl) False
               else if symbol zctrl = ''solo''
               then set_solo s (midi_chan zctrl) (value_cur zctrl) False
               else if symbol zctrl = ''mono''
               then set_mono s (midi_chan zctrl) (value_cur zctrl) False
               else Raise AttributeError s)
      in case r of
           Return s' \<Rightarrow> s'
         | Raise e s' \<Rightarrow> s'\<lparr>events := events s' @ [LogWarning e]\<rparr>)"

text \<open>
  The body of the inner loop of \<^verbatim>\<open>set_state\<close>, for the controller \<open>zctrl\<close> stored
  under \<open>name\<close> in strip \<open>chan\<close>:
  \<^verbatim>\<open>
  try:
      ctrl_state = state[key][symbol]
      if "value" in ctrl_state:
          zctrl.set_value(ctrl_state["value"], True)
      if "midi_learn_chan" in ctrl_state and "midi_learn_cc" in ctrl_state:
          self.set_midi_learn(zctrl, int(ctrl_state["midi_learn_chan"]), int(ctrl_state["midi_learn_cc"]))
  except:
      if full:
          zctrl.reset_value()
  \<close>
  It returns the controller and the wrapper after it. \<^verbatim>\<open>set_midi_learn\<close> is inherited
  from a class that is not among the sources: \<open>learn_raises\<close> says for which pair of
  values the statement raises; when it returns, the call is recorded.
\<close>

definition set_state_ctrl ::
  "(pyval \<Rightarrow> pyval \<Rightarrow> bool) \<Rightarrow> mixer_state \<Rightarrow> bool \<Rightarrow> string \<Rightarrow> nat \<Rightarrow> string \<Rightarrow>
   zynthian_controller \<Rightarrow> 'z zynmixer \<Rightarrow> zynthian_controller \<times> 'z zynmixer" where
  "set_state_ctrl learn_raises state full key chan name zctrl s =
     (case (case map_of state key of None \<Rightarrow> None | Some chan_state \<Rightarrow> map_of chan_state name) of
        None \<Rightarrow> (if full then zctrl_reset_value zctrl else zctrl, s)
      | Some ctrl_state \<Rightarrow>
          (let (zctrl, s) =
                 (case map_of ctrl_state ''value'' of
                    None \<Rightarrow> (zctrl, s)
                  | Some v \<Rightarrow>
                      (zctrl_set_value v zctrl,
                       send_controller_value s (zctrl_set_value v zctrl)))
           in case (map_of ctrl_state ''midi_learn_chan'', map_of ctrl_state ''midi_learn_cc'') of
                (Some lchan, Some lcc) \<Rightarrow>
                  (if learn_raises lchan lcc
                   then (if full then zctrl_reset_value zctrl else zctrl, s)
                   else (zctrl, s\<lparr>events := events s @ [SetMidiLearn chan name lchan lcc]\<rparr>))
              | _ \<Rightarrow> (zctrl, s)))"

fun set_state_strip ::
  "(pyval \<Rightarrow> pyval \<Rightarrow> bool) \<Rightarrow> mixer_state \<Rightarrow> bool \<Rightarrow> string \<Rightarrow> nat \<Rightarrow> strip \<Rightarrow>
   'z zynmixer \<Rightarrow> strip \<times> 'z zynmixer" where
  "set_state_strip learn_raises state full key chan [] s = ([], s)"
| "set_state_strip learn_raises state full key chan ((name, zctrl) # items) s =
     (let (zctrl', s') = set_state_ctrl learn_raises state full key chan name zctrl s;
          (items', s'') = set_state_strip learn_raises state full key chan items s'
      in ((name, zctrl') # items', s''))"

text \<open>
  The outer loop, \<^verbatim>\<open>for chan, zctrls in enumerate(self.zctrls)\<close>. The controllers are
  changed in place and the list and its dictionaries keep their shape, so the loop
  rebuilds the list strip by strip.
\<close>

fun set_state_loop ::
  "(pyval \<Rightarrow> pyval \<Rightarrow> bool) \<Rightarrow> mixer_state \<Rightarrow> bool \<Rightarrow> nat \<Rightarrow> strip list \<Rightarrow>
   'z zynmixer \<Rightarrow> strip list \<times> 'z zynmixer" where
  "set_state_loop learn_raises state full chan [] s = ([], s)"
| "set_state_loop learn_raises state full chan (strip # strips) s =
     (let key = chan_key s chan;
          (strip', s') = set_state_strip learn_raises state full key chan strip s;
          (strips', s'') = set_state_loop learn_raises state full (Suc chan) strips s'
      in (strip' # strips', s''))"

definition set_state ::
  "(pyval \<Rightarrow> pyval \<Rightarrow> bool) \<Rightarrow> 'z zynmixer \<Rightarrow> mixer_state \<Rightarrow> bool \<Rightarrow> 'z zynmixer" where
  "set_state learn_raises s state full =
     (let (strips, s') = set_state_loop learn_raises state full 0 (zctrls s) s
      in s'\<lparr>zctrls := strips\<rparr>)"

subsection \<open>MIDI learn\<close>

definition enable_midi_learn :: "'z zynmixer \<Rightarrow> 'z \<Rightarrow> 'z zynmixer" where
  "enable_midi_learn s zctrl = s\<lparr>midi_learn_zctrl := Some zctrl\<rparr>"

definition disable_midi_learn :: "'z zynmixer \<Rightarrow> 'z zynmixer" where
  "disable_midi_learn s =
     (let s = s\<lparr>midi_learn_zctrl := None\<rparr>
      in if midi_learn_cb s then s\<lparr>events := events s @ [MidiLearnCb]\<rparr> else s)"

definition set_midi_learn_cb :: "'z zynmixer \<Rightarrow> bool \<Rightarrow> 'z zynmixer" where
  "set_midi_learn_cb s cb = s\<lparr>midi_learn_cb := cb\<rparr>"

text \<open>
  The controller bound at \<^verbatim>\<open>learned_cc[chan][ccnum]\<close>, if the list has the index and
  the dictionary the key.
\<close>

definition bound_at :: "'z zynmixer \<Rightarrow> int \<Rightarrow> int \<Rightarrow> 'z option" where
  "bound_at s chan ccnum =
     (case list_pos (learned_cc s) (IntIndex chan) of
        Inl e \<Rightarrow> None
      | Inr p \<Rightarrow> map_of (learned_cc s ! p) ccnum)"

text \<open>
  \<^verbatim>\<open>
  try:
      self.learned_cc[ch][ccnum].midi_control_change(val)
  except:
      pass
  \<close>
  An index out of range and a CC number that is not bound are both swallowed.
\<close>

definition forward_cc :: "int \<Rightarrow> int \<Rightarrow> int \<Rightarrow> 'z zynmixer \<Rightarrow> 'z zynmixer" where
  "forward_cc ccnum val ch s =
     (case bound_at s ch ccnum of
        None \<Rightarrow> s
      | Some zctrl \<Rightarrow> s\<lparr>events := events s @ [CtrlMidiCC zctrl val]\<rparr>)"

text \<open>
  \<^verbatim>\<open>
  def midi_control_change(self, chan, ccnum, val):
      if self.midi_learn_zctrl:
          self.learned_cc[chan][ccnum] = self.midi_learn_zctrl
          self.disable_midi_learn()
      elif zynthian_gui_config.midi_single_active_channel:
          for ch in range(16):
              try: ... except: pass
      else:
          try: ... except: pass
  \<close>
  \<open>single\<close> is the global flag \<^verbatim>\<open>zynthian_gui_config.midi_single_active_channel\<close>.
\<close>

definition midi_control_change ::
  "bool \<Rightarrow> 'z zynmixer \<Rightarrow> int \<Rightarrow> int \<Rightarrow> int \<Rightarrow> 'z zynmixer outcome" where
  "midi_control_change single s chan ccnum val =
     (case midi_learn_zctrl s of
        Some zctrl \<Rightarrow>
          (case list_pos (learned_cc s) (IntIndex chan) of
             Inl e \<Rightarrow> Raise e s
           | Inr p \<Rightarrow>
               Return (disable_midi_learn
                 (s\<lparr>learned_cc := (learned_cc s)[p := AList.update ccnum zctrl (learned_cc s ! p)]\<rparr>)))
      | None \<Rightarrow>
          (if single then Return (fold (forward_cc ccnum val) (py_range 16) s)
           else Return (forward_cc ccnum val chan s)))"

text \<open>
  \<^verbatim>\<open>
  def midi_unlearn(self, zctrl):
      for chan in self.learned_cc:
          for cc in self.learned_cc[chan]:
              if self.learned_cc[chan][cc] == zctrl:
                  self.learned_cc[chan].pop(cc)
  \<close>
  The outer loop runs over the dictionaries of the list, and \<^verbatim>\<open>self.learned_cc[chan]\<close>
  indexes the list with such a dictionary. The inner loop runs over the keys the
  dictionary had when the loop began; after a \<^verbatim>\<open>pop\<close> the next step of the iteration
  raises RuntimeError, since the dictionary has changed its size.
\<close>

fun unlearn_keys :: "'z \<Rightarrow> nat \<Rightarrow> int list \<Rightarrow> 'z zynmixer \<Rightarrow> 'z zynmixer outcome" where
  "unlearn_keys zctrl p [] s = Return s"
| "unlearn_keys zctrl p (cc # ccs) s =
     (case map_of (learned_cc s ! p) cc of
        None \<Rightarrow> Raise KeyError s
      | Some z \<Rightarrow>
          (if z = zctrl
           then Raise RuntimeError
                  (s\<lparr>learned_cc := (learned_cc s)[p := AList.delete cc (learned_cc s ! p)]\<rparr>)
           else unlearn_keys zctrl p ccs s))"

definition unlearn_chan :: "'z \<Rightarrow> (int \<times> 'z) list \<Rightarrow> 'z zynmixer \<Rightarrow> 'z zynmixer outcome" where
  "unlearn_chan zctrl chan s =
     (case list_pos (learned_cc s) DictIndex of
        Inl e \<Rightarrow> Raise e s
      | Inr p \<Rightarrow> unlearn_keys zctrl p (map fst (learned_cc s ! p)) s)"

definition midi_unlearn :: "'z zynmixer \<Rightarrow> 'z \<Rightarrow> 'z zynmixer outcome" where
  "midi_unlearn s zctrl = for_each (unlearn_chan zctrl) (learned_cc s) s"

text \<open>
  \<^verbatim>\<open>
  def midi_unlearn_chan(self, chan):
      for zctrl in self.zctrls[chan].values:
          self.midi_unlearn(zctrl)
  \<close>
  \<^verbatim>\<open>values\<close> is not called, and a method cannot be iterated.
\<close>

definition midi_unlearn_chan :: "'z zynmixer \<Rightarrow> int \<Rightarrow> 'z zynmixer outcome" where
  "midi_unlearn_chan s chan =
     (case list_pos (zctrls s) (IntIndex chan) of
        Inl e \<Rightarrow> Raise e s
      | Inr p \<Rightarrow> Raise TypeError s)"

text \<open>Whether a controller is bound in some dictionary of the table.\<close>

definition bound_somewhere :: "'z \<Rightarrow> (int \<times> 'z) list list \<Rightarrow> bool" where
  "bound_somewhere zctrl table = list_ex (\<lambda>d. list_ex (\<lambda>(cc, z). z = zctrl) d) table"

text \<open>The controllers bound to a CC number, dictionary by dictionary.\<close>

definition bound_to :: "int \<Rightarrow> (int \<times> 'z) list list \<Rightarrow> 'z list" where
  "bound_to ccnum table = List.map_filter (\<lambda>d. map_of d ccnum) table"

subsection \<open>The life of an instance\<close>

text \<open>
  The methods of the wrapper that change it, with their arguments. The getters,
  \<^verbatim>\<open>get_controllers_dict\<close> and \<^verbatim>\<open>get_learned_cc\<close> change nothing and are left out.
\<close>

datatype 'z mcall =
    M_destroy
  | M_send_controller_value zynthian_controller
  | M_set_level int pyval bool
  | M_set_balance int pyval bool
  | M_set_mute "int option" pyval bool
  | M_toggle_mute int
  | M_set_phase int pyval bool
  | M_toggle_phase int bool
  | M_set_solo int pyval bool
  | M_toggle_solo int bool
  | M_set_mono int pyval bool
  | M_toggle_mono int bool
  | M_enable_dpm int bool
  | M_add_osc_client string
  | M_remove_osc_client string
  | M_reset pyval
  | M_reset_state
  | M_set_state "pyval \<Rightarrow> pyval \<Rightarrow> bool" mixer_state bool
  | M_midi_control_change bool int int int
  | M_midi_unlearn_chan int
  | M_midi_unlearn 'z
  | M_enable_midi_learn 'z
  | M_disable_midi_learn
  | M_set_midi_learn_cb bool

fun call_method :: "'z mcall \<Rightarrow> 'z zynmixer \<Rightarrow> 'z zynmixer outcome" where
  "call_method M_destroy s = destroy s"
| "call_method (M_send_controller_value zctrl) s = Return (send_controller_value s zctrl)"
| "call_method (M_set_level channel v update) s = set_level s channel v update"
| "call_method (M_set_balance channel v update) s = set_balance s channel v update"
| "call_method (M_set_mute channel v update) s = set_mute s channel v update"
| "call_method (M_toggle_mute channel) s = toggle_mute s channel"
| "call_method (M_set_phase channel v update) s = set_phase s channel v update"
| "call_method (M_toggle_phase channel update) s = toggle_phase s channel update"
| "call_method (M_set_solo channel v update) s = set_solo s channel v update"
| "call_method (M_toggle_solo channel update) s = toggle_solo s channel update"
| "call_method (M_set_mono channel v update) s = set_mono s channel v update"
| "call_method (M_toggle_mono channel update) s = toggle_mono s channel update"
| "call_method (M_enable_dpm chan enable) s = enable_dpm s chan enable"
| "call_method (M_add_osc_client client) s = add_osc_client s client"
| "call_method (M_remove_osc_client client) s = remove_osc_client s client"
| "call_method (M_reset channel) s = reset s channel"
| "call_method M_reset_state s = reset_state s"
| "call_method (M_set_state learn_raises state full) s = Return (set_state learn_raises s state full)"
| "call_method (M_midi_control_change single chan ccnum val) s =
     midi_control_change single s chan ccnum val"
| "call_method (M_midi_unlearn_chan chan) s = midi_unlearn_chan s chan"
| "call_method (M_midi_unlearn zctrl) s = midi_unlearn s zctrl"
| "call_method (M_enable_midi_learn zctrl) s = Return (enable_midi_learn s zctrl)"
| "call_method M_disable_midi_learn s = Return (disable_midi_learn s)"
| "call_method (M_set_midi_learn_cb cb) s = Return (set_midi_learn_cb s cb)"

text \<open>
  The instance after a sequence of calls; a call that raised leaves the instance as it
  was when it raised, and the next call goes on from there.
\<close>

definition after_calls :: "'z mcall list \<Rightarrow> 'z zynmixer \<Rightarrow> 'z zynmixer" where
  "after_calls ms s = fold (\<lambda>m s. state_of (call_method m s)) ms s"

text \<open>
  The shape of the cache: each strip holds the six controllers under their names.
\<close>

definition ctrl_names :: "string list" where
  "ctrl_names = [''level'', ''balance'', ''mute'', ''solo'', ''mono'', ''phase'']"

definition strip_ok :: "strip \<Rightarrow> bool" where
  "strip_ok strip \<longleftrightarrow>
     map fst strip = ctrl_names \<and> map (\<lambda>(name, zctrl). symbol zctrl) strip = ctrl_names"

definition cache_inv :: "'z zynmixer \<Rightarrow> bool" where
  "cache_inv s \<longleftrightarrow>
     int (length (zctrls s)) = MAX_NUM_CHANNELS s + 1 \<and> list_all strip_ok (zctrls s)"

text \<open>The library is loaded and reports the number of channels it reported at first.\<close>

definition lib_loaded :: "'z zynmixer \<Rightarrow> bool" where
  "lib_loaded s \<longleftrightarrow>
     (case lib_zynmixer s of
        None \<Rightarrow> False
      | Some l \<Rightarrow> int (getMaxChannels l) = MAX_NUM_CHANNELS s)"

text \<open>The value cached for a channel strip and a controller name.\<close>

definition cached :: "'z zynmixer \<Rightarrow> nat \<Rightarrow> string \<Rightarrow> pyval option" where
  "cached s p name = map_option value_cur (map_of (zctrls s ! p) name)"

text \<open>A library and an instance to try the theorems on: two channels and the main bus.\<close>

definition example_lib :: zynmixer_lib where
  "example_lib =
     \<lparr>calls = [], c_long_bits = 64, getMaxChannels = 2,
      getLevel = (\<lambda>h c. PyFloat 0.8), getBalance = (\<lambda>h c. PyFloat 0),
      getMute = (\<lambda>h c. PyInt 0), getPhase = (\<lambda>h c. PyInt 0),
      getSolo = (\<lambda>h c. 0), getMono = (\<lambda>h c. 0),
      getDpm = (\<lambda>h c leg. PyFloat (- 200)), getDpmHold = (\<lambda>h c leg. PyFloat (- 200)),
      lib_get_solo = None\<rparr>"

definition example_mixer :: "nat zynmixer" where
  "example_mixer = state_of (zynmixer_init (Some example_lib) False)"

section \<open>The controller table is a well-formed CC mapping\<close>

lemma all_ctrls_ccs:
  "map ctrl_cc all_ctrls =
     [1, 80, 91, 92, 70, 71, 72, 73, 74, 75, 76, 77, 78, 83, 81, 82, 23, 93, 21, 22]"
  by (simp add: all_ctrls_def map_list_def ctrl_cc_def)

text \<open>
  C10. The table has five screens; every controller entry carries a CC number between
  0 and 127; the CC numbers of the whole table are pairwise distinct; and
  \<^verbatim>\<open>default_ctrl_config\<close> is the controller list of the first screen, which is named
  main.
\<close>

theorem map_list_well_formed:
  "length map_list = 5 \<and>
   list_all cc_in_range all_ctrls \<and>
   distinct (map ctrl_cc all_ctrls) \<and>
   snd (snd (map_list ! 0)) = ''main'' \<and>
   default_ctrl_config =
     [ (''volume'', 1, PyInt 96, PyInt 127),
       (''percussion on/off'', 80, PyStr ''off'', PyStr ''off|on''),
       (''rotary speed'', 91, PyStr ''off'', PyStr ''off|chr|trm|chr''),
       (''vibrato on/off'', 92, PyStr ''off'', PyStr ''off|on'') ]"
proof -
  have len: "length map_list = 5"
    by (simp add: map_list_def)
  have rng: "list_all cc_in_range all_ctrls"
    by (simp add: all_ctrls_def map_list_def cc_in_range_def ctrl_cc_def)
  have dist: "distinct (map ctrl_cc all_ctrls)"
    by (simp add: all_ctrls_ccs)
  have nm: "snd (snd (map_list ! 0)) = ''main''"
    by (simp add: map_list_def)
  have dflt: "default_ctrl_config =
     [ (''volume'', 1, PyInt 96, PyInt 127),
       (''percussion on/off'', 80, PyStr ''off'', PyStr ''off|on''),
       (''rotary speed'', 91, PyStr ''off'', PyStr ''off|chr|trm|chr''),
       (''vibrato on/off'', 92, PyStr ''off'', PyStr ''off|on'') ]"
    by (simp add: default_ctrl_config_def map_list_def)
  from len rng dist nm dflt show ?thesis by blast
qed

section \<open>Page navigation stays on the list\<close>

lemma previous_page_max: "previous_page g wrap = max (index g - 1) 0"
  by (simp add: previous_page_def Let_def max_def)

lemma next_page_inner:
  "index g + 1 < int (length (list_data g)) \<Longrightarrow> next_page g wrap = index g + 1"
  by (simp add: next_page_def Let_def)

lemma next_page_last:
  "index g = int (length (list_data g)) - 1 \<Longrightarrow>
     next_page g True = 0 \<and> next_page g False = int (length (list_data g)) - 1"
  by (simp add: next_page_def Let_def)

lemma page_in_bounds:
  assumes "list_data g \<noteq> []" "0 \<le> index g" "index g < int (length (list_data g))"
  shows "0 \<le> previous_page g wrap \<and> previous_page g wrap \<le> int (length (list_data g)) - 1 \<and>
         0 \<le> next_page g wrap \<and> next_page g wrap \<le> int (length (list_data g)) - 1"
  using assms by (auto simp: previous_page_def next_page_def Let_def)

text \<open>
  C9. \<^verbatim>\<open>previous_page\<close> selects \<open>max (index - 1) 0\<close> whatever its \<^verbatim>\<open>wrap\<close>
  argument is. \<^verbatim>\<open>next_page\<close> selects \<open>index + 1\<close> before the last entry; at the last
  entry it selects 0 when \<^verbatim>\<open>wrap\<close> is true and the last entry again when it is false.
  When the list is not empty and the current index is on the list, the selected index
  is on the list too.
\<close>

theorem page_navigation:
  "previous_page g wrap = max (index g - 1) 0 \<and>
   (index g + 1 < int (length (list_data g)) \<longrightarrow> next_page g wrap = index g + 1) \<and>
   (index g = int (length (list_data g)) - 1 \<longrightarrow>
      next_page g True = 0 \<and> next_page g False = int (length (list_data g)) - 1) \<and>
   (list_data g \<noteq> [] \<and> 0 \<le> index g \<and> index g < int (length (list_data g)) \<longrightarrow>
      0 \<le> previous_page g wrap \<and> previous_page g wrap \<le> int (length (list_data g)) - 1 \<and>
      0 \<le> next_page g wrap \<and> next_page g wrap \<le> int (length (list_data g)) - 1)"
  using previous_page_max [of g wrap] next_page_inner [of g wrap] next_page_last [of g]
    page_in_bounds [of g wrap]
  by blast

theorem page_navigation_witness:
  "previous_page \<lparr>index = 1, list_data = [(), ()]\<rparr> False = max (1 - 1) 0 \<and>
   (0::int) + 1 < int (length [(), ()]) \<and>
   next_page \<lparr>index = 0, list_data = [(), ()]\<rparr> False = 1 \<and>
   (1::int) = int (length [(), ()]) - 1 \<and>
   next_page \<lparr>index = 1, list_data = [(), ()]\<rparr> True = 0 \<and>
   next_page \<lparr>index = 1, list_data = [(), ()]\<rparr> False = 1 \<and>
   [(), ()] \<noteq> [] \<and>
   previous_page \<lparr>index = 1, list_data = [(), ()]\<rparr> True \<le> int (length [(), ()]) - 1"
  using page_navigation [of "\<lparr>index = 1, list_data = [(), ()]\<rparr>" False]
    page_navigation [of "\<lparr>index = 0, list_data = [(), ()]\<rparr>" False]
    page_navigation [of "\<lparr>index = 1, list_data = [(), ()]\<rparr>" True]
  by simp

section \<open>The program list parser\<close>

lemma match_literal_iff: "match_literal p s = Some r \<longleftrightarrow> s = p @ r"
  by (induction p s rule: match_literal.induct) auto

lemma split_run:
  assumes "list_all P xs" "ys = [] \<or> \<not> P (hd ys)"
  shows "takeWhile P (xs @ ys) = xs" "dropWhile P (xs @ ys) = ys"
proof -
  have base: "takeWhile P ys = []" "dropWhile P ys = ys"
    using assms(2) by (cases ys; simp)+
  show "takeWhile P (xs @ ys) = xs" "dropWhile P (xs @ ys) = ys"
    using assms(1) base by (induction xs) auto
qed

lemma ord_str_simps [simp]:
  "ord_str ''{'' = [123]" "ord_str ''name='' = [110, 97, 109, 101, 61]"
  by (simp_all add: ord_str_def)

lemma ptrn_match_complete:
  assumes apart: "classes_apart rt" and pat: "pattern_line rt line ds title"
  shows "ptrn_match rt line = Some (ds, title)"
proof -
  let ?D = "uni_isdecimal rt" and ?S = "uni_isspace rt"
  let ?tail = "[110, 97, 109, 101, 61] @ [dquote] @ title @ [dquote]"
  from pat obtain ws1 ws2 rest where
    line: "line = ds @ ws1 @ [123] @ ws2 @ ?tail @ rest"
    and ds: "ds \<noteq> []" "list_all ?D ds"
    and ws: "list_all ?S ws1" "list_all ?S ws2"
    and t: "title \<noteq> []" "list_all (\<lambda>c. c \<noteq> dquote) title"
    unfolding pattern_line_def by auto
  have nd: "\<not> ?D (hd (ws1 @ [123] @ ws2 @ ?tail @ rest))"
    using ws(1) apart by (cases ws1) (auto simp: classes_apart_def)
  have g1: "takeWhile ?D line = ds"
    and r1: "dropWhile ?D line = ws1 @ [123] @ ws2 @ ?tail @ rest"
    unfolding line using split_run [OF ds(2), of "ws1 @ [123] @ ws2 @ ?tail @ rest"] nd
    by simp_all
  have r2: "dropWhile ?S (ws1 @ [123] @ ws2 @ ?tail @ rest) = [123] @ ws2 @ ?tail @ rest"
    using split_run(2) [OF ws(1), of "[123] @ ws2 @ ?tail @ rest"] apart
    by (simp add: classes_apart_def)
  have r3: "dropWhile ?S (ws2 @ ?tail @ rest) = ?tail @ rest"
    using split_run(2) [OF ws(2), of "?tail @ rest"] apart
    by (simp add: classes_apart_def)
  have g2: "takeWhile (\<lambda>c. c \<noteq> dquote) (title @ [dquote] @ rest) = title"
    and r4: "dropWhile (\<lambda>c. c \<noteq> dquote) (title @ [dquote] @ rest) = [dquote] @ rest"
    using split_run [OF t(2), of "[dquote] @ rest"] by simp_all
  have m1: "match_literal [123] ([123] @ ws2 @ ?tail @ rest) = Some (ws2 @ ?tail @ rest)"
    by (simp only: match_literal_iff)
  have m2: "match_literal ([110, 97, 109, 101, 61] @ [dquote]) (?tail @ rest)
      = Some (title @ [dquote] @ rest)"
    by (simp add: match_literal_iff)
  have m3: "match_literal [dquote] ([dquote] @ rest) = Some rest"
    by (simp only: match_literal_iff)
  show ?thesis
    unfolding ptrn_match_def Let_def ord_str_simps g1 r1 r2 m1 option.case r3 m2 g2 r4 m3
    using ds(1) t(1) by simp
qed

lemma ptrn_match_sound:
  assumes "ptrn_match rt line = Some (ds, title)"
  shows "pattern_line rt line ds title"
proof -
  let ?D = "uni_isdecimal rt" and ?S = "uni_isspace rt"
  let ?r1 = "dropWhile ?D line"
  from assms have ds: "ds = takeWhile ?D line" "ds \<noteq> []"
    by (auto simp: ptrn_match_def Let_def split: if_splits option.splits)
  from assms obtain r2 where r2: "match_literal [123] (dropWhile ?S ?r1) = Some r2"
    by (auto simp: ptrn_match_def Let_def split: if_splits option.splits)
  from assms r2 obtain r3 where
    r3: "match_literal ([110, 97, 109, 101, 61] @ [dquote]) (dropWhile ?S r2) = Some r3"
    by (auto simp: ptrn_match_def Let_def split: if_splits option.splits)
  from assms r2 r3 have t: "title = takeWhile (\<lambda>c. c \<noteq> dquote) r3" "title \<noteq> []"
    by (auto simp: ptrn_match_def Let_def split: if_splits option.splits)
  from assms r2 r3 obtain r5 where
    r5: "match_literal [dquote] (dropWhile (\<lambda>c. c \<noteq> dquote) r3) = Some r5"
    by (auto simp: ptrn_match_def Let_def split: if_splits option.splits)
  have e1: "line = ds @ ?r1"
    by (simp add: ds(1))
  have e2: "?r1 = takeWhile ?S ?r1 @ [123] @ r2"
    using r2 unfolding match_literal_iff by (metis takeWhile_dropWhile_id)
  have e3: "r2 = takeWhile ?S r2 @ [110, 97, 109, 101, 61] @ [dquote] @ r3"
    using r3 unfolding match_literal_iff by (metis takeWhile_dropWhile_id append.assoc)
  have e4: "r3 = title @ [dquote] @ r5"
    using r5 unfolding match_literal_iff t(1) by (metis takeWhile_dropWhile_id)
  have line: "line = ds @ takeWhile ?S ?r1 @ [123] @ takeWhile ?S r2 @
      [110, 97, 109, 101, 61] @ [dquote] @ title @ [dquote] @ r5"
    using e1 e2 e3 e4 by (metis append.assoc)
  have c1: "list_all ?D ds"
    unfolding ds(1) list_all_iff by (auto dest: set_takeWhileD)
  have c2: "list_all ?S (takeWhile ?S ?r1)" "list_all ?S (takeWhile ?S r2)"
    unfolding list_all_iff by (auto dest: set_takeWhileD)
  have c3: "list_all (\<lambda>c. c \<noteq> dquote) title"
    unfolding t(1) list_all_iff by (auto dest: set_takeWhileD)
  show ?thesis
    unfolding pattern_line_def ord_str_simps using line ds(2) t(2) c1 c2 c3 by blast
qed

lemma enumerate_shift:
  "map (\<lambda>(k, n, t). (i + int k, [0, 0, n - 1], t)) (enumerate (Suc m) xs) =
   map (\<lambda>(k, n, t). (i + 1 + int k, [0, 0, n - 1], t)) (enumerate m xs)"
  by (induction xs arbitrary: m) (auto simp: algebra_simps)

lemma load_pgm_loop_eq:
  "load_pgm_loop rt ls i acc =
     acc @ map (\<lambda>(k, n, t). (i + int k, [0, 0, n - 1], t))
               (enumerate 0 (List.map_filter (line_entry rt) ls))"
proof (induction ls arbitrary: i acc)
  case Nil
  show ?case by (simp add: List.map_filter_simps)
next
  case (Cons l ls)
  show ?case
  proof (cases "line_entry rt l")
    case None
    then show ?thesis
      using Cons.IH
      by (auto simp: List.map_filter_simps line_entry_def Let_def
          split: option.splits sum.splits if_splits)
  next
    case (Some e)
    then obtain g1 g2 n where m: "ptrn_match rt l = Some (g1, g2)" "py_int rt g1 = Inr n"
      "0 \<le> n - 1" "e = (n, g2)"
      by (auto simp: line_entry_def split: option.splits sum.splits if_splits)
    show ?thesis
      using Cons.IH [of "i + 1" "acc @ [(i, [0, 0, n - 1], g2)]"] m Some
      by (simp add: List.map_filter_simps Let_def enumerate_shift [of i 0, simplified])
  qed
qed

lemma classes_apart_cpython: "classes_apart cpython_3_11"
proof -
  have "list_all (\<lambda>c. \<not> list_ex (\<lambda>z. z \<le> c \<and> c < z + 10) decimal_zeros) white_space"
    by (simp add: white_space_def decimal_zeros_def)
  then have "\<not> (c \<in> set white_space \<and> list_ex (\<lambda>z. z \<le> c \<and> c < z + 10) decimal_zeros)" for c
    unfolding list_all_iff by blast
  moreover have "\<not> list_ex (\<lambda>z. z \<le> 123 \<and> 123 < z + 10) decimal_zeros"
    by (simp add: decimal_zeros_def)
  moreover have "123 \<notin> set white_space" "110 \<notin> set white_space"
    by (simp_all add: white_space_def)
  ultimately show ?thesis
    by (simp add: classes_apart_def cpython_3_11_def)
qed

lemma decimal_value_snoc:
  "decimal_value rt (ds @ [d]) = 10 * decimal_value rt ds + uni_todecimal rt d"
  by (simp add: decimal_value_def)

lemma decimal_value_ones: "1 \<le> decimal_value cpython_3_11 (replicate (Suc n) 49)"
proof (induction n)
  case 0
  show ?case by (simp add: decimal_value_def cpython_3_11_def decimal_zeros_def)
next
  case (Suc n)
  have "replicate (Suc (Suc n)) (49::nat) = replicate (Suc n) 49 @ [49]"
    by (simp add: replicate_append_same)
  moreover have "uni_todecimal cpython_3_11 49 = 1"
    by (simp add: cpython_3_11_def decimal_zeros_def)
  ultimately show ?case
    using Suc by (simp only: decimal_value_snoc)
qed

text \<open>
  C4, as the code has it. \<^verbatim>\<open>load_pgm_list\<close> returns one tuple for each line that
  matches the pattern and whose leading digits \<^verbatim>\<open>int()\<close> converts to an integer \<open>n\<close> of
  at least 1, in the order of the lines: the tuple \<open>(i, [0, 0, n - 1], title)\<close>, where
  \<open>title\<close> is the quoted name and \<open>i\<close> counts the emitted tuples from 0. Every other
  line adds nothing: a line that does not match, a matching line with leading integer
  0, and a matching line with more digits than \<^verbatim>\<open>int()\<close> converts.
\<close>

theorem load_pgm_list_entries:
  "classes_apart rt \<longrightarrow>
   load_pgm_list rt ls =
     map (\<lambda>(k, n, title). (int k, [0, 0, n - 1], title))
         (enumerate 0 (List.map_filter (line_entry rt) ls)) \<and>
   (\<forall>l n title. line_entry rt l = Some (n, title) \<longleftrightarrow>
      (\<exists>ds. pattern_line rt l ds title \<and> py_int rt ds = Inr n \<and> 1 \<le> n))"
proof
  assume apart: "classes_apart rt"
  have loop: "load_pgm_list rt ls =
     map (\<lambda>(k, n, title). (int k, [0, 0, n - 1], title))
         (enumerate 0 (List.map_filter (line_entry rt) ls))"
    unfolding load_pgm_list_def by (simp add: load_pgm_loop_eq)
  have entry: "line_entry rt l = Some (n, title) \<longleftrightarrow>
      (\<exists>ds. pattern_line rt l ds title \<and> py_int rt ds = Inr n \<and> 1 \<le> n)" for l n title
  proof
    assume "line_entry rt l = Some (n, title)"
    then obtain g1 where "ptrn_match rt l = Some (g1, title)" "py_int rt g1 = Inr n" "1 \<le> n"
      by (auto simp: line_entry_def split: option.splits sum.splits if_splits)
    then show "\<exists>ds. pattern_line rt l ds title \<and> py_int rt ds = Inr n \<and> 1 \<le> n"
      using ptrn_match_sound by blast
  next
    assume "\<exists>ds. pattern_line rt l ds title \<and> py_int rt ds = Inr n \<and> 1 \<le> n"
    then obtain ds where "pattern_line rt l ds title" "py_int rt ds = Inr n" "1 \<le> n"
      by blast
    then show "line_entry rt l = Some (n, title)"
      using ptrn_match_complete [OF apart, of l ds title] by (simp add: line_entry_def)
  qed
  from loop entry show "load_pgm_list rt ls =
     map (\<lambda>(k, n, title). (int k, [0, 0, n - 1], title))
         (enumerate 0 (List.map_filter (line_entry rt) ls)) \<and>
   (\<forall>l n title. line_entry rt l = Some (n, title) \<longleftrightarrow>
      (\<exists>ds. pattern_line rt l ds title \<and> py_int rt ds = Inr n \<and> 1 \<le> n))"
    by blast
qed

text \<open>
  A program file of five lines under CPython 3.11: two programs (the second with
  Arabic-Indic digits and a no-break space before the brace), a comment and a line with
  program number 0.
\<close>

theorem load_pgm_list_entries_witness:
  "classes_apart cpython_3_11 \<and>
   load_pgm_list cpython_3_11
     [ord_str ''12  {  name='' @ [dquote] @ ord_str ''Jazz 1'' @ [dquote] @ ord_str '', x'',
      ord_str ''# comment'',
      ord_str ''0{name='' @ [dquote] @ ord_str ''none'' @ [dquote],
      [1632, 1639, 160] @ ord_str ''{name='' @ [dquote] @ ord_str ''Bond'' @ [dquote]]
   = [(0, [0, 0, 11], ord_str ''Jazz 1''), (1, [0, 0, 6], ord_str ''Bond'')]"
proof -
  let ?l1 = "ord_str ''12  {  name='' @ [dquote] @ ord_str ''Jazz 1'' @ [dquote] @ ord_str '', x''"
  let ?l2 = "ord_str ''# comment''"
  let ?l3 = "ord_str ''0{name='' @ [dquote] @ ord_str ''none'' @ [dquote]"
  let ?l4 = "[1632, 1639, 160] @ ord_str ''{name='' @ [dquote] @ ord_str ''Bond'' @ [dquote]"
  have e1: "line_entry cpython_3_11 ?l1 = Some (12, ord_str ''Jazz 1'')"
    by (simp add: line_entry_def ptrn_match_def py_int_def decimal_value_def cpython_3_11_def
        decimal_zeros_def white_space_def dquote_def ord_str_def)
  have e2: "line_entry cpython_3_11 ?l2 = None"
    by (simp add: line_entry_def ptrn_match_def cpython_3_11_def decimal_zeros_def ord_str_def)
  have e3: "line_entry cpython_3_11 ?l3 = None"
    by (simp add: line_entry_def ptrn_match_def py_int_def decimal_value_def cpython_3_11_def
        decimal_zeros_def white_space_def dquote_def ord_str_def)
  have e4: "line_entry cpython_3_11 ?l4 = Some (7, ord_str ''Bond'')"
    by (simp add: line_entry_def ptrn_match_def py_int_def decimal_value_def cpython_3_11_def
        decimal_zeros_def white_space_def dquote_def ord_str_def)
  have mf: "List.map_filter (line_entry cpython_3_11) [?l1, ?l2, ?l3, ?l4] =
      [(12, ord_str ''Jazz 1''), (7, ord_str ''Bond'')]"
    unfolding List.map_filter_simps e1 e2 e3 e4 by simp
  from load_pgm_list_entries [of cpython_3_11 "[?l1, ?l2, ?l3, ?l4]"] classes_apart_cpython
  have "load_pgm_list cpython_3_11 [?l1, ?l2, ?l3, ?l4] =
      map (\<lambda>(k, n, title). (int k, [0, 0, n - 1], title))
        (enumerate 0 (List.map_filter (line_entry cpython_3_11) [?l1, ?l2, ?l3, ?l4]))"
    by blast
  then have "load_pgm_list cpython_3_11 [?l1, ?l2, ?l3, ?l4] =
      [(0, [0, 0, 11], ord_str ''Jazz 1''), (1, [0, 0, 6], ord_str ''Bond'')]"
    unfolding mf by simp
  with classes_apart_cpython show ?thesis by blast
qed

text \<open>
  The claim as first written fails where \<^verbatim>\<open>int()\<close> has a limit: under CPython 3.11 a
  line of 4301 digits 1, a brace and \<^verbatim>\<open>name="A"\<close> matches the pattern with a leading
  integer of at least 1 and yet adds no tuple.
\<close>

theorem load_pgm_list_long_integer_counterexample:
  "pattern_line cpython_3_11
     (replicate 4301 49 @ ord_str ''{name='' @ [dquote] @ ord_str ''A'' @ [dquote])
     (replicate 4301 49) (ord_str ''A'') \<and>
   1 \<le> decimal_value cpython_3_11 (replicate 4301 49) \<and>
   load_pgm_list cpython_3_11
     [replicate 4301 49 @ ord_str ''{name='' @ [dquote] @ ord_str ''A'' @ [dquote]] = []"
proof -
  let ?ds = "replicate 4301 (49::nat)"
  let ?l = "?ds @ ord_str ''{name='' @ [dquote] @ ord_str ''A'' @ [dquote]"
  have d49: "uni_isdecimal cpython_3_11 49"
    by (simp add: cpython_3_11_def decimal_zeros_def)
  have pat: "pattern_line cpython_3_11 ?l ?ds (ord_str ''A'')"
    unfolding pattern_line_def
    by (rule exI [of _ "[]"], rule exI [of _ "[]"], rule exI [of _ "[]"])
       (simp add: d49 list_all_iff ord_str_def dquote_def)
  have val: "1 \<le> decimal_value cpython_3_11 ?ds"
    using decimal_value_ones [of 4300] by simp
  have m: "ptrn_match cpython_3_11 ?l = Some (?ds, ord_str ''A'')"
    by (rule ptrn_match_complete [OF classes_apart_cpython pat])
  have "py_int cpython_3_11 ?ds = Inl ValueError"
    by (simp add: py_int_def cpython_3_11_def)
  with m have "load_pgm_list cpython_3_11 [?l] = []"
    by (simp add: load_pgm_list_def)
  with pat val show ?thesis by blast
qed

section \<open>MIDI learn\<close>

lemma state_of_simps [simp]:
  "state_of (Return s) = s" "state_of (Raise e s) = s"
  by (simp_all add: state_of_def)

lemma raised_simps [simp]:
  "raised (Return s) = None" "raised (Raise e s) = Some e"
  by (simp_all add: raised_def)

lemma and_then_simps [simp]:
  "and_then (Return s) f = f s" "and_then (Raise e s) f = Raise e s"
  by (simp_all add: and_then_def)

lemma list_pos_less: "list_pos xs ix = Inr p \<Longrightarrow> p < length xs"
  by (cases ix) (auto simp: Let_def split: if_splits)

lemma list_pos_nat: "n < length xs \<Longrightarrow> list_pos xs (IntIndex (int n)) = Inr n"
  by simp

lemma list_pos_beyond: "length xs \<le> n \<Longrightarrow> list_pos xs (IntIndex (int n)) = Inl IndexError"
  by simp

lemma forward_cc_frame:
  "learned_cc (forward_cc ccnum val ch s) = learned_cc s"
  "zctrls (forward_cc ccnum val ch s) = zctrls s"
  "midi_learn_zctrl (forward_cc ccnum val ch s) = midi_learn_zctrl s"
  "lib_zynmixer (forward_cc ccnum val ch s) = lib_zynmixer s"
  "MAX_NUM_CHANNELS (forward_cc ccnum val ch s) = MAX_NUM_CHANNELS s"
  by (simp_all add: forward_cc_def split: option.splits)

lemma bound_to_snoc:
  "bound_to ccnum (table @ [d]) =
     bound_to ccnum table @ (case map_of d ccnum of None \<Rightarrow> [] | Some z \<Rightarrow> [z])"
  by (simp add: bound_to_def map_filter_def split: option.splits)

lemma fold_forward_cc:
  "fold (forward_cc ccnum val) (map int [0..<n]) s =
     s\<lparr>events := events s @ map (\<lambda>z. CtrlMidiCC z val) (bound_to ccnum (take n (learned_cc s)))\<rparr>"
proof (induction n)
  case 0
  show ?case by (simp add: bound_to_def List.map_filter_simps)
next
  case (Suc n)
  let ?t = "fold (forward_cc ccnum val) (map int [0..<n]) s"
  have t: "?t = s\<lparr>events := events s @
      map (\<lambda>z. CtrlMidiCC z val) (bound_to ccnum (take n (learned_cc s)))\<rparr>"
    by (rule Suc.IH)
  have step: "fold (forward_cc ccnum val) (map int [0..<Suc n]) s = forward_cc ccnum val (int n) ?t"
    by simp
  show ?case
  proof (cases "n < length (learned_cc s)")
    case True
    then have "take (Suc n) (learned_cc s) = take n (learned_cc s) @ [learned_cc s ! n]"
      by (rule take_Suc_conv_app_nth)
    then show ?thesis
      unfolding step using True
      by (simp add: t forward_cc_def bound_at_def bound_to_snoc split: option.splits)
  next
    case False
    then show ?thesis
      unfolding step by (simp add: t forward_cc_def bound_at_def)
  qed
qed

lemma bound_to_empty:
  "bound_to ccnum table = [] \<longleftrightarrow> list_all (\<lambda>d. map_of d ccnum = None) table"
  by (induction table) (auto simp: bound_to_def List.map_filter_simps split: option.splits)

lemma events_unchanged:
  "s\<lparr>events := events s @ xs\<rparr> = s \<longleftrightarrow> xs = []" for s :: "'z zynmixer"
proof
  assume "s\<lparr>events := events s @ xs\<rparr> = s"
  then have "events (s\<lparr>events := events s @ xs\<rparr>) = events s" by simp
  then show "xs = []" by simp
next
  assume "xs = []"
  then show "s\<lparr>events := events s @ xs\<rparr> = s" by simp
qed

lemma mcc_single:
  assumes "midi_learn_zctrl s = None"
  shows "midi_control_change True s chan ccnum val =
     Return (s\<lparr>events := events s @
        map (\<lambda>z. CtrlMidiCC z val) (bound_to ccnum (take 16 (learned_cc s)))\<rparr>)"
  using assms fold_forward_cc [of ccnum val 16 s]
  by (simp add: midi_control_change_def py_range_def)

lemma mcc_multi:
  assumes "midi_learn_zctrl s = None"
  shows "midi_control_change False s chan ccnum val =
     Return (case bound_at s chan ccnum of
               None \<Rightarrow> s
             | Some z \<Rightarrow> s\<lparr>events := events s @ [CtrlMidiCC z val]\<rparr>)"
  using assms by (simp add: midi_control_change_def forward_cc_def)


text \<open>
  The instance of the example with controller 42 learned at channel 1, CC 7.
\<close>

lemma example_mixer_fields:
  "learned_cc example_mixer = replicate 16 []"
  "midi_learn_zctrl example_mixer = None"
  "midi_learn_cb example_mixer = False"
  "events example_mixer = []"
  "MAX_NUM_CHANNELS example_mixer = 2"
  by (simp_all add: example_mixer_def zynmixer_init_def example_lib_def Let_def)

lemma example_learned:
  "state_of (midi_control_change False (enable_midi_learn example_mixer 42) 1 7 64) =
     example_mixer\<lparr>learned_cc := (replicate 16 [])[1 := [(7, 42)]]\<rparr>"
  by (simp add: midi_control_change_def enable_midi_learn_def disable_midi_learn_def
      example_mixer_fields Let_def)



lemma bound_at_update:
  assumes "list_pos (learned_cc s) (IntIndex chan) = Inr p"
  shows "bound_at (s\<lparr>learned_cc := (learned_cc s)[p := AList.update ccnum z (learned_cc s ! p)]\<rparr>)
           ch cc =
         (if list_pos (learned_cc s) (IntIndex ch) = Inr p \<and> cc = ccnum then Some z
          else bound_at s ch cc)"
proof (cases "list_pos (learned_cc s) (IntIndex ch)")
  case (Inl e)
  then show ?thesis by (simp add: bound_at_def Let_def split: if_splits)
next
  case (Inr q)
  then have q: "q < length (learned_cc s)" by (rule list_pos_less)
  from Inr have "list_pos ((learned_cc s)[p := AList.update ccnum z (learned_cc s ! p)])
      (IntIndex ch) = Inr q"
    by (simp add: Let_def split: if_splits)
  moreover from assms have "p < length (learned_cc s)" by (rule list_pos_less)
  ultimately show ?thesis
    using Inr q by (auto simp: bound_at_def nth_list_update update_conv')
qed

lemma disable_midi_learn_fields:
  "learned_cc (disable_midi_learn s) = learned_cc s"
  "zctrls (disable_midi_learn s) = zctrls s"
  "lib_zynmixer (disable_midi_learn s) = lib_zynmixer s"
  "midi_learn_zctrl (disable_midi_learn s) = None"
  "events (disable_midi_learn s) = events s @ (if midi_learn_cb s then [MidiLearnCb] else [])"
  by (simp_all add: disable_midi_learn_def Let_def)

lemma bound_at_cong: "learned_cc s = learned_cc t \<Longrightarrow> bound_at s ch cc = bound_at t ch cc"
  by (auto simp: bound_at_def split: sum.splits)

lemma mcc_learn:
  assumes "midi_learn_zctrl s = Some z" "list_pos (learned_cc s) (IntIndex chan) = Inr p"
  shows "midi_control_change single s chan ccnum val =
     Return (disable_midi_learn
       (s\<lparr>learned_cc := (learned_cc s)[p := AList.update ccnum z (learned_cc s ! p)]\<rparr>))"
  using assms by (simp add: midi_control_change_def)



text \<open>
  C3. On the table of an instance \<^verbatim>\<open>midi_unlearn\<close> stops at the first step of its
  outer loop with TypeError: the loop variable is a dictionary of the list and is used
  as an index of the list. No binding is removed.
\<close>

lemma midi_unlearn_raises:
  "learned_cc s \<noteq> [] \<Longrightarrow> midi_unlearn s zctrl = Raise TypeError s"
  by (cases "learned_cc s") (simp_all add: midi_unlearn_def unlearn_chan_def)

text \<open>
  Had the dictionary been reached, the inner loop would do what the claim says: it
  removes the first binding of the controller and raises RuntimeError.
\<close>

lemma unlearn_keys_first_binding:
  "unlearn_keys 42 1 [7] (example_mixer\<lparr>learned_cc := (replicate 16 [])[1 := [(7, 42)]]\<rparr>) =
     Raise RuntimeError (example_mixer\<lparr>learned_cc := (replicate 16 [])[1 := []]\<rparr>)"
  by simp


end
